theory Spec2Isabelle
  imports Complex_Main "HOL-Library.Log_Nat"
begin

section \<open>StatPulse health check: the probe, the anomaly detector and the log\<close>

text \<open>
  A shallow embedding of \<^verbatim>\<open>scripts/check-health.js\<close>. Every function of the script
  is a HOL function of the same name. What the script takes from its surroundings is an
  argument of the model: the outcome of each \<^verbatim>\<open>fetch\<close> with the clock readings around
  it, the behaviour of \<^verbatim>\<open>readFileSync\<close> and \<^verbatim>\<open>writeFileSync\<close> on the log path, and
  the platform's \<^verbatim>\<open>JSON.parse\<close> and \<^verbatim>\<open>JSON.stringify\<close>. Console output
  (\<^verbatim>\<open>logInfo\<close>, \<^verbatim>\<open>logWarn\<close>, \<^verbatim>\<open>logError\<close>) changes no value and is left out.
\<close>

subsection \<open>Named constants\<close>

definition MAX_LOG_ENTRIES :: int where
  "MAX_LOG_ENTRIES = 200"

definition TIMEOUT_MS :: int where
  "TIMEOUT_MS = 15000"

definition ANOMALY_WINDOW :: int where
  "ANOMALY_WINDOW = 10"

definition ANOMALY_MIN_SAMPLES :: nat where
  "ANOMALY_MIN_SAMPLES = 5"

definition ANOMALY_WARNING_FACTOR :: rat where
  "ANOMALY_WARNING_FACTOR = 2"

definition ANOMALY_CRITICAL_FACTOR :: rat where
  "ANOMALY_CRITICAL_FACTOR = 3"

subsection \<open>JavaScript numbers\<close>

text \<open>
  A JavaScript number is an IEEE-754 double. A finite double is the rational it denotes;
  \<open>fl\<close> rounds a rational to the nearest number with a 53-bit significand, ties to the
  even significand, which is the result of every correctly rounded operation. The
  exponent is not bounded here, so the model is the double arithmetic exactly as long as
  magnitudes stay in the normal range, as they do for millisecond counts and byte counts
  (integers below \<open>2 ^ 53\<close>, and their quotients). There is one zero.
\<close>

datatype js_number = Num rat | Infinity | NegInfinity | NaN

definition pow2 :: "int \<Rightarrow> rat" where
  "pow2 e = (if 0 \<le> e then 2 ^ nat e else 1 / 2 ^ nat (- e))"

definition ilog2 :: "rat \<Rightarrow> int" where
  \<comment> \<open>for \<open>0 < q\<close>: the \<open>e\<close> with \<open>2 ^ e \<le> q < 2 ^ (e + 1)\<close>\<close>
  "ilog2 q = (if 1 \<le> q then int (floorlog 2 (nat \<lfloor>q\<rfloor>)) - 1
              else - int (floorlog 2 (nat (\<lceil>1 / q\<rceil> - 1))))"

definition round_half_even :: "rat \<Rightarrow> int" where
  "round_half_even r =
     (let f = \<lfloor>r\<rfloor>; d = r - of_int f
      in if d < 1 / 2 then f else if 1 / 2 < d then f + 1
         else if even f then f else f + 1)"

definition fl :: "rat \<Rightarrow> rat" where
  "fl q = (if q = 0 then 0
           else let e = ilog2 \<bar>q\<bar> - 52
                in sgn q * of_int (round_half_even (\<bar>q\<bar> / pow2 e)) * pow2 e)"

definition js_add :: "rat \<Rightarrow> rat \<Rightarrow> rat" where
  \<comment> \<open>\<^verbatim>\<open>a + b\<close> on finite numbers\<close>
  "js_add a b = fl (a + b)"

fun js_div :: "js_number \<Rightarrow> js_number \<Rightarrow> js_number" where
  "js_div (Num a) (Num b) =
     (if b = 0 then (if a = 0 then NaN else if 0 < a then Infinity else NegInfinity)
      else Num (fl (a / b)))"
| "js_div (Num a) Infinity = Num 0"
| "js_div (Num a) NegInfinity = Num 0"
| "js_div Infinity (Num b) = (if 0 \<le> b then Infinity else NegInfinity)"
| "js_div NegInfinity (Num b) = (if 0 \<le> b then NegInfinity else Infinity)"
| "js_div _ _ = NaN"

fun Math_round :: "js_number \<Rightarrow> js_number" where
  \<comment> \<open>\<^verbatim>\<open>Math.round\<close>: the nearest integer, a tie going up\<close>
  "Math_round (Num x) = Num (of_int \<lfloor>x + 1 / 2\<rfloor>)"
| "Math_round n = n"

fun js_ge :: "js_number \<Rightarrow> rat \<Rightarrow> bool" where
  \<comment> \<open>\<^verbatim>\<open>x >= k\<close> for a finite \<open>k\<close>\<close>
  "js_ge (Num x) k = (k \<le> x)"
| "js_ge Infinity k = True"
| "js_ge NegInfinity k = False"
| "js_ge NaN k = False"

text \<open>
  The strings that \<^verbatim>\<open>toFixed(2)\<close> returns, by what they spell: \<open>Fixed2 neg n\<close>, for a
  whole number \<open>n\<close> that is not negative, is the optional minus sign, the decimal digits of
  \<open>n div 100\<close>, a point and the two digits of \<open>n mod 100\<close>; from \<open>10 ^ 21\<close> on \<^verbatim>\<open>toFixed\<close> gives the shortest string that reads
  back as the number itself (\<open>Shortest\<close>); the other three are the strings
  \<^verbatim>\<open>Infinity\<close>, \<^verbatim>\<open>-Infinity\<close> and \<^verbatim>\<open>NaN\<close>.
\<close>

datatype numeric_string =
  Fixed2 bool int | Shortest rat | StrInfinity | StrNegInfinity | StrNaN

fun toFixed2 :: "js_number \<Rightarrow> numeric_string" where
  "toFixed2 (Num x) =
     (if 10 ^ 21 \<le> \<bar>x\<bar> then Shortest x
      else Fixed2 (x < 0) \<lfloor>\<bar>x\<bar> * 100 + 1 / 2\<rfloor>)"
| "toFixed2 Infinity = StrInfinity"
| "toFixed2 NegInfinity = StrNegInfinity"
| "toFixed2 NaN = StrNaN"

fun parseFloat :: "numeric_string \<Rightarrow> js_number" where
  "parseFloat (Fixed2 neg n) = Num (fl ((if neg then - 1 else 1) * of_int n / 100))"
| "parseFloat (Shortest x) = Num x"
| "parseFloat StrInfinity = Infinity"
| "parseFloat StrNegInfinity = NegInfinity"
| "parseFloat StrNaN = NaN"

subsection \<open>Arrays and strings\<close>

definition js_slice :: "int \<Rightarrow> 'a list \<Rightarrow> 'a list" where
  \<comment> \<open>\<^verbatim>\<open>xs.slice(start)\<close>: a negative start counts from the end, clamped at 0\<close>
  "js_slice start xs =
     (let len = int (length xs);
          k = (if start < 0 then max (len + start) 0 else min start len)
      in drop (nat k) xs)"

definition digit_char :: "int \<Rightarrow> char" where
  "digit_char d = ''0123456789'' ! nat d"

function digits :: "int \<Rightarrow> string" where
  \<comment> \<open>the decimal digits of a whole number that is not negative\<close>
  "digits n = (if n < 10 then [digit_char n]
               else digits (n div 10) @ [digit_char (n mod 10)])"
  by pat_completeness auto
termination
  by (relation "measure nat") auto

declare digits.simps [simp del]

definition string_of_int :: "int \<Rightarrow> string" where
  \<comment> \<open>a whole number inside a template literal\<close>
  "string_of_int n = (if n < 0 then CHR ''-'' # digits (- n) else digits n)"

fun starts_with :: "string \<Rightarrow> string \<Rightarrow> bool" where
  "starts_with [] s = True"
| "starts_with (p # ps) [] = False"
| "starts_with (p # ps) (c # cs) = (p = c \<and> starts_with ps cs)"

fun js_includes :: "string \<Rightarrow> string \<Rightarrow> bool" where
  "js_includes w [] = (w = [])"
| "js_includes w (c # cs) = (starts_with w (c # cs) \<or> js_includes w cs)"

fun count_matches :: "string \<Rightarrow> nat \<Rightarrow> string \<Rightarrow> nat" where
  \<comment> \<open>\<^verbatim>\<open>(body.match(/w/g) || []).length\<close> for a literal word \<open>w\<close>: the matches found
      left to right, each search resuming after the previous match (\<open>skip\<close> characters
      of the last match are still to be passed)\<close>
  "count_matches w skip [] = 0"
| "count_matches w skip (c # cs) =
     (if 0 < skip then count_matches w (skip - 1) cs
      else if starts_with w (c # cs) then 1 + count_matches w (length w - 1) cs
      else count_matches w 0 cs)"

definition lower_ascii :: "char \<Rightarrow> char" where
  "lower_ascii c = (if (65::nat) \<le> of_char c \<and> of_char c \<le> (90::nat)
                    then char_of (of_char c + (32::nat)) else c)"

definition test_xml_sdmx :: "string \<Rightarrow> bool" where
  \<comment> \<open>\<^verbatim>\<open>/xml|sdmx/i.test(s)\<close>\<close>
  "test_xml_sdmx s = (let t = map lower_ascii s in js_includes ''xml'' t \<or> js_includes ''sdmx'' t)"

subsection \<open>Data model\<close>

text \<open>
  An error object, by its \<^verbatim>\<open>name\<close>, \<^verbatim>\<open>message\<close> and (for file-system errors)
  \<^verbatim>\<open>code\<close>.
\<close>

record js_error =
  err_name :: string
  err_message :: string
  err_code :: "string option"

text \<open>
  The value of \<^verbatim>\<open>extraMetric.value\<close>: a count, or the string of \<^verbatim>\<open>toFixed(2)\<close>;
  \<open>None\<close> is \<^verbatim>\<open>null\<close>.
\<close>

datatype metric_value = MetricNumber nat | MetricString numeric_string

record extra_metric =
  metric_label :: string
  metric_value :: "metric_value option"

text \<open>
  The object \<^verbatim>\<open>{ detected, rollingAvgMs?, deviationFactor?, severity? }\<close>; an absent
  property is \<open>None\<close>.
\<close>

record anomaly_verdict =
  detected :: bool
  rollingAvgMs :: "js_number option"
  deviationFactor :: "js_number option"
  severity :: "string option"

text \<open>
  One entry of the health log. \<^verbatim>\<open>null\<close> is \<open>None\<close>; \<open>responseTimeMs\<close> is a whole
  number of milliseconds, the difference of two \<^verbatim>\<open>Date.now()\<close> readings.
\<close>

record probe_result =
  endpoint :: string
  url :: string
  timestamp :: string
  status :: "int option"
  ok :: bool
  responseTimeMs :: "int option"
  contentTypeValid :: bool
  responseSizeKB :: "js_number option"
  extraMetric :: extra_metric
  anomaly :: anomaly_verdict
  error :: "string option"

record endpoint_config =
  ep_name :: string
  ep_url :: string
  ep_extraMetric :: "string \<Rightarrow> extra_metric"

text \<open>
  A response of \<^verbatim>\<open>fetch\<close>: \<^verbatim>\<open>response.status\<close>, \<^verbatim>\<open>response.ok\<close>, the
  \<^verbatim>\<open>content-type\<close> header (\<open>None\<close> when the header is absent) and the body text as
  its UTF-8 bytes, so that \<^verbatim>\<open>Buffer.byteLength(body, 'utf8')\<close> is its length.
\<close>

record http_response =
  resp_status :: int
  resp_ok :: bool
  resp_content_type :: "string option"
  resp_body :: string

text \<open>
  What the network does to one probe, with \<^verbatim>\<open>Date.now() - t0\<close> as read on the path
  taken: the fetch resolves and the body is read; the fetch resolves and reading the body
  rejects (the time is read once after the fetch and again in the \<^verbatim>\<open>catch\<close> block);
  or the fetch rejects, with an error named \<^verbatim>\<open>AbortError\<close> when the timer of
  \<open>TIMEOUT_MS\<close> aborted it.
\<close>

datatype network_outcome =
  Responded int http_response
| BodyReadFailed int http_response js_error int
| Rejected js_error int

record probe_env =
  env_timestamp :: string
  env_outcome :: network_outcome

text \<open>
  A parsed JSON text: an array of log entries, or any value that is not an array.
\<close>

datatype json_value = JArray "probe_result list" | JNotArray

record json_codec =
  JSON_stringify :: "json_value \<Rightarrow> string"
  JSON_parse :: "string \<Rightarrow> js_error + json_value"

text \<open>
  The file system at \<^verbatim>\<open>LOG_PATH\<close>: what \<^verbatim>\<open>readFileSync\<close> does (it throws, with
  code \<^verbatim>\<open>ENOENT\<close> when the file is absent, or returns the text) and the error that
  \<^verbatim>\<open>writeFileSync\<close> throws, if any.
\<close>

record world =
  log_file :: "js_error + string"
  write_error :: "js_error option"

subsection \<open>Endpoint definitions\<close>

definition ENDPOINTS :: "endpoint_config list" where
  "ENDPOINTS =
     [\<lparr>ep_name = ''Structures'',
       ep_url = ''https://nsi-demo-stable.siscc.org/rest/datastructure/all/all/all?detail=allstubs'',
       ep_extraMetric = (\<lambda>body.
         \<lparr>metric_label = ''DataStructure count'',
          metric_value = Some (MetricNumber (count_matches ''DataStructure'' 0 body))\<rparr>)\<rparr>,
      \<lparr>ep_name = ''Data Query'',
       ep_url = ''https://nsi-demo-stable.siscc.org/rest/data/OECD.CFE,INBOUND@TOURISM_TRIPS,2.0'',
       ep_extraMetric = (\<lambda>body.
         \<lparr>metric_label = ''Response size KB'',
          metric_value = Some (MetricString
            (toFixed2 (js_div (Num (of_nat (length body))) (Num 1024))))\<rparr>)\<rparr>,
      \<lparr>ep_name = ''Codelists'',
       ep_url = ''https://nsi-demo-stable.siscc.org/rest/codelist/all/all/latest?detail=allstubs'',
       ep_extraMetric = (\<lambda>body.
         \<lparr>metric_label = ''Codelist count'',
          metric_value = Some (MetricNumber (count_matches ''Codelist'' 0 body))\<rparr>)\<rparr>]"

subsection \<open>Anomaly detection\<close>

definition not_detected :: anomaly_verdict where
  \<comment> \<open>\<^verbatim>\<open>{ detected: false }\<close>\<close>
  "not_detected =
     \<lparr>detected = False, rollingAvgMs = None, deviationFactor = None, severity = None\<rparr>"

definition qualifying :: "string \<Rightarrow> probe_result \<Rightarrow> bool" where
  \<comment> \<open>the filter predicate \<^verbatim>\<open>r.endpoint === endpointName && r.responseTimeMs !== null\<close>\<close>
  "qualifying endpointName r = (endpoint r = endpointName \<and> responseTimeMs r \<noteq> None)"

definition window :: "string \<Rightarrow> probe_result list \<Rightarrow> probe_result list" where
  \<comment> \<open>the local \<^verbatim>\<open>history\<close>\<close>
  "window endpointName historicalLog =
     js_slice (- ANOMALY_WINDOW) (filter (qualifying endpointName) historicalLog)"

definition sum_times :: "probe_result list \<Rightarrow> rat" where
  \<comment> \<open>\<^verbatim>\<open>history.reduce((sum, r) => sum + r.responseTimeMs, 0)\<close>; \<^verbatim>\<open>null\<close> adds as 0\<close>
  "sum_times history =
     foldl (\<lambda>sum r. js_add sum (case responseTimeMs r of None \<Rightarrow> 0 | Some t \<Rightarrow> of_int t))
       0 history"

definition rolling_average :: "probe_result list \<Rightarrow> js_number" where
  \<comment> \<open>the local \<^verbatim>\<open>rollingAvgMs\<close>\<close>
  "rolling_average history =
     Math_round (js_div (Num (sum_times history)) (Num (of_nat (length history))))"

definition deviation :: "int \<Rightarrow> js_number \<Rightarrow> js_number" where
  \<comment> \<open>\<^verbatim>\<open>parseFloat((currentMs / rollingAvgMs).toFixed(2))\<close>\<close>
  "deviation currentMs rollingAvg =
     parseFloat (toFixed2 (js_div (Num (of_int currentMs)) rollingAvg))"

definition detectAnomaly :: "string \<Rightarrow> int option \<Rightarrow> probe_result list \<Rightarrow> anomaly_verdict" where
  "detectAnomaly endpointName currentMs historicalLog =
     (case currentMs of
        None \<Rightarrow> not_detected
      | Some cur \<Rightarrow>
          let history = window endpointName historicalLog
          in if length history < ANOMALY_MIN_SAMPLES then not_detected
             else
               let rollingAvg = rolling_average history
               in if rollingAvg = Num 0 then not_detected
                  else
                    let factor = deviation cur rollingAvg
                    in if js_ge factor ANOMALY_CRITICAL_FACTOR
                       then \<lparr>detected = True, rollingAvgMs = Some rollingAvg,
                             deviationFactor = Some factor, severity = Some ''critical''\<rparr>
                       else if js_ge factor ANOMALY_WARNING_FACTOR
                       then \<lparr>detected = True, rollingAvgMs = Some rollingAvg,
                             deviationFactor = Some factor, severity = Some ''warning''\<rparr>
                       else not_detected)"

subsection \<open>Core functions\<close>

definition initial_result :: "endpoint_config \<Rightarrow> string \<Rightarrow> probe_result" where
  \<comment> \<open>the first value of the local \<^verbatim>\<open>result\<close>\<close>
  "initial_result ep ts =
     \<lparr>endpoint = ep_name ep, url = ep_url ep, timestamp = ts, status = None, ok = False,
      responseTimeMs = None, contentTypeValid = False, responseSizeKB = None,
      extraMetric = \<lparr>metric_label = metric_label (ep_extraMetric ep []),
                     metric_value = None\<rparr>,
      anomaly = not_detected, error = None\<rparr>"

definition errorMessage :: "js_error \<Rightarrow> string" where
  "errorMessage err =
     (if err_name err = ''AbortError''
      then ''Request timed out after '' @ string_of_int TIMEOUT_MS @ ''ms''
      else err_message err)"

definition on_catch :: "probe_result \<Rightarrow> js_error \<Rightarrow> int \<Rightarrow> probe_result" where
  \<comment> \<open>the \<^verbatim>\<open>catch\<close> block of \<^verbatim>\<open>checkEndpoint\<close>, entered with \<^verbatim>\<open>Date.now() - t0\<close>\<close>
  "on_catch result err elapsed =
     result\<lparr>responseTimeMs := Some elapsed, error := Some (errorMessage err)\<rparr>"

definition checkEndpoint :: "endpoint_config \<Rightarrow> probe_env \<Rightarrow> probe_result" where
  "checkEndpoint ep env =
     (let result = initial_result ep (env_timestamp env)
      in case env_outcome env of
           Responded elapsed response \<Rightarrow>
             (let body = resp_body response;
                  contentType = (case resp_content_type response of
                                   None \<Rightarrow> [] | Some h \<Rightarrow> h)
              in result\<lparr>status := Some (resp_status response),
                        ok := resp_ok response,
                        responseTimeMs := Some elapsed,
                        contentTypeValid := test_xml_sdmx contentType,
                        responseSizeKB := Some (parseFloat (toFixed2
                          (js_div (Num (of_nat (length body))) (Num 1024)))),
                        extraMetric := ep_extraMetric ep body\<rparr>)
         | BodyReadFailed elapsed response err elapsed' \<Rightarrow> on_catch result err elapsed'
         | Rejected err elapsed \<Rightarrow> on_catch result err elapsed)"

definition readLog :: "json_codec \<Rightarrow> world \<Rightarrow> probe_result list" where
  "readLog codec w =
     (case log_file w of
        Inl err \<Rightarrow> []
      | Inr raw \<Rightarrow>
          (case JSON_parse codec raw of
             Inl err \<Rightarrow> []
           | Inr JNotArray \<Rightarrow> []
           | Inr (JArray parsed) \<Rightarrow> parsed))"

definition writeLog :: "json_codec \<Rightarrow> probe_result list \<Rightarrow> world \<Rightarrow> js_error + world" where
  "writeLog codec log' w =
     (let trimmed = js_slice (- MAX_LOG_ENTRIES) log'
      in case write_error w of
           Some err \<Rightarrow> Inl err
         | None \<Rightarrow> Inr (w\<lparr>log_file := Inr (JSON_stringify codec (JArray trimmed))\<rparr>))"

subsection \<open>Entry point\<close>

text \<open>
  A finished run of \<^verbatim>\<open>main\<close>: the results of the cycle, the file system it leaves and
  the exit code of the process (1 after \<^verbatim>\<open>process.exit(1)\<close>, 0 when \<^verbatim>\<open>main\<close>
  returns).
\<close>

record run =
  run_results :: "probe_result list"
  run_world :: world
  run_exit :: int

definition annotate :: "probe_result list \<Rightarrow> probe_result \<Rightarrow> probe_result" where
  \<comment> \<open>\<^verbatim>\<open>result.anomaly = detectAnomaly(result.endpoint, result.responseTimeMs, log)\<close>\<close>
  "annotate log' result =
     result\<lparr>anomaly := detectAnomaly (endpoint result) (responseTimeMs result) log'\<rparr>"

definition exit_code :: "probe_result list \<Rightarrow> int" where
  \<comment> \<open>the end of \<^verbatim>\<open>main\<close>: \<^verbatim>\<open>process.exit(1)\<close> when \<^verbatim>\<open>failCount === results.length\<close>\<close>
  "exit_code results =
     (let failCount = length (filter (\<lambda>r. \<not> ok r) results)
      in if failCount = length results then 1 else 0)"

definition main :: "json_codec \<Rightarrow> (nat \<Rightarrow> probe_env) \<Rightarrow> world \<Rightarrow> js_error + run" where
  \<comment> \<open>\<open>net i\<close> is what the \<open>i\<close>-th probe of the cycle meets; \<open>Inl\<close> is the rejection of
      the promise\<close>
  "main codec net w =
     (let results = map (\<lambda>(i, ep). checkEndpoint ep (net i)) (enumerate 0 ENDPOINTS);
          log' = readLog codec w;
          results = map (annotate log') results;
          log' = log' @ results
      in case writeLog codec log' w of
           Inl err \<Rightarrow> Inl err
         | Inr w' \<Rightarrow>
             Inr \<lparr>run_results = results, run_world = w', run_exit = exit_code results\<rparr>)"

definition process_exit_code :: "json_codec \<Rightarrow> (nat \<Rightarrow> probe_env) \<Rightarrow> world \<Rightarrow> int" where
  \<comment> \<open>\<^verbatim>\<open>main().catch(err => process.exit(1))\<close>\<close>
  "process_exit_code codec net w =
     (case main codec net w of Inl err \<Rightarrow> 1 | Inr r \<Rightarrow> run_exit r)"

subsection \<open>Sample inputs\<close>

text \<open>
  Concrete responses, errors, probes and files, for the examples that follow the theorems.
\<close>

definition ok_response :: http_response where
  "ok_response =
     \<lparr>resp_status = 200, resp_ok = True, resp_content_type = Some ''application/xml'',
      resp_body = ''<DataStructure/>''\<rparr>"

definition abort_error :: js_error where
  "abort_error =
     \<lparr>err_name = ''AbortError'', err_message = ''This operation was aborted'',
      err_code = None\<rparr>"

definition fetch_failed :: js_error where
  "fetch_failed = \<lparr>err_name = ''TypeError'', err_message = ''fetch failed'', err_code = None\<rparr>"

definition enoent :: js_error where
  "enoent =
     \<lparr>err_name = ''Error'', err_message = ''ENOENT: no such file or directory'',
      err_code = Some ''ENOENT''\<rparr>"

definition syntax_error :: js_error where
  "syntax_error =
     \<lparr>err_name = ''SyntaxError'', err_message = ''Unexpected token'', err_code = None\<rparr>"

definition probe_at :: "network_outcome \<Rightarrow> probe_env" where
  "probe_at outcome = \<lparr>env_timestamp = ''2025-03-01T06:00:00.000Z'', env_outcome = outcome\<rparr>"

definition past_probe :: "int \<Rightarrow> probe_result" where
  \<comment> \<open>the entry that a probe of the first endpoint leaves when it is answered after \<open>t\<close> ms\<close>
  "past_probe t = checkEndpoint (hd ENDPOINTS) (probe_at (Responded t ok_response))"

definition one_text_codec :: "probe_result list \<Rightarrow> json_codec" where
  \<comment> \<open>a platform that is only ever asked about one array: it writes it as one fixed text,
      reads that text back as the array, and rejects every other text\<close>
  "one_text_codec entries =
     \<lparr>JSON_stringify = (\<lambda>v. ''[...]''),
      JSON_parse = (\<lambda>s. if s = ''[...]'' then Inr (JArray entries) else Inl syntax_error)\<rparr>"

definition two_of_three :: "nat \<Rightarrow> probe_env" where
  \<comment> \<open>a cycle in which the second probe fails and the other two are answered\<close>
  "two_of_three i =
     (if i = 1 then probe_at (Rejected fetch_failed 212)
      else probe_at (Responded 120 ok_response))"

definition fresh_world :: world where
  "fresh_world = \<lparr>log_file = Inl enoent, write_error = None\<rparr>"

definition corrupt_world :: world where
  "corrupt_world = \<lparr>log_file = Inr ''{not json'', write_error = None\<rparr>"

section \<open>Properties\<close>

subsection \<open>Auxiliary facts\<close>

text \<open>
  The rounding of \<open>fl\<close> on three quotients: one third and 1.995 are rounded to the
  doubles that IEEE-754 division gives, 3.5 is a double already.
\<close>

lemma fl_examples:
  "fl (1 / 3) = 6004799503160661 / 18014398509481984"
  "fl (399 / 200) = 2246170314151035 / 1125899906842624"
  "fl (350 / 100) = 7 / 2"
  by code_simp+

lemma js_slice_neg: "0 < n \<Longrightarrow> js_slice (- n) xs = drop (length xs - nat n) xs"
  by (auto simp: js_slice_def Let_def max_def intro: arg_cong2[where f=drop])

lemma length_js_slice_neg: "0 < n \<Longrightarrow> length (js_slice (- n) xs) = min (length xs) (nat n)"
  by (simp add: js_slice_neg)

lemma set_js_slice: "set (js_slice k xs) \<subseteq> set xs"
  by (simp add: js_slice_def Let_def set_drop_subset)

lemma pow2_pos: "0 < pow2 e"
  by (simp add: pow2_def)

lemma round_half_even_nonneg: "0 \<le> r \<Longrightarrow> 0 \<le> round_half_even r"
  by (auto simp: round_half_even_def Let_def)

lemma fl_nonneg: "0 \<le> q \<Longrightarrow> 0 \<le> fl q"
proof (cases "q = 0")
  case True
  then show ?thesis by (simp add: fl_def)
next
  case False
  assume "0 \<le> q"
  with False have pos: "0 < q" by simp
  have "0 \<le> \<bar>q\<bar> / pow2 (ilog2 \<bar>q\<bar> - 52)"
    using pow2_pos [of "ilog2 \<bar>q\<bar> - 52"] by simp
  then have "0 \<le> round_half_even (\<bar>q\<bar> / pow2 (ilog2 \<bar>q\<bar> - 52))"
    by (rule round_half_even_nonneg)
  then have "0 \<le> rat_of_int (round_half_even (\<bar>q\<bar> / pow2 (ilog2 \<bar>q\<bar> - 52))) * pow2 (ilog2 \<bar>q\<bar> - 52)"
    using pow2_pos [of "ilog2 \<bar>q\<bar> - 52"] by simp
  with pos show ?thesis by (simp add: fl_def Let_def)
qed

lemma foldl_times_nonneg:
  "0 \<le> acc \<Longrightarrow> \<forall>r\<in>set xs. \<forall>t. responseTimeMs r = Some t \<longrightarrow> 0 \<le> t \<Longrightarrow>
   0 \<le> foldl (\<lambda>sum r. js_add sum (case responseTimeMs r of None \<Rightarrow> 0 | Some t \<Rightarrow> of_int t)) acc xs"
proof (induction xs arbitrary: acc)
  case Nil
  then show ?case by simp
next
  case (Cons x xs)
  have "0 \<le> (case responseTimeMs x of None \<Rightarrow> (0::rat) | Some t \<Rightarrow> of_int t)"
    using Cons.prems(2) by (cases "responseTimeMs x") auto
  with Cons.prems(1) have "0 \<le> js_add acc (case responseTimeMs x of None \<Rightarrow> 0 | Some t \<Rightarrow> of_int t)"
    unfolding js_add_def by (intro fl_nonneg) simp
  with Cons show ?case by simp
qed

lemma sum_times_nonneg:
  "\<forall>r\<in>set xs. \<forall>t. responseTimeMs r = Some t \<longrightarrow> 0 \<le> t \<Longrightarrow> 0 \<le> sum_times xs"
  unfolding sum_times_def by (rule foldl_times_nonneg) simp_all

lemma rolling_average_Num:
  "xs \<noteq> [] \<Longrightarrow>
   rolling_average xs = Num (of_int \<lfloor>fl (sum_times xs / of_nat (length xs)) + 1 / 2\<rfloor>)"
  by (simp add: rolling_average_def)

lemma length_filter_all: "length (filter P xs) = length xs \<longleftrightarrow> (\<forall>x\<in>set xs. P x)"
proof (induction xs)
  case Nil
  then show ?case by simp
next
  case (Cons x xs)
  then show ?case
    using length_filter_le [of P xs] by (auto simp del: length_filter_le)
qed

lemma exit_code_iff: "exit_code results = 1 \<longleftrightarrow> (\<forall>r\<in>set results. \<not> ok r)"
  by (simp add: exit_code_def Let_def length_filter_all)

lemma exit_code_cases: "exit_code results = 0 \<or> exit_code results = 1"
  by (simp add: exit_code_def Let_def)

lemma window_drop:
  "window name hist =
   drop (length (filter (qualifying name) hist) - 10) (filter (qualifying name) hist)"
  by (simp add: window_def ANOMALY_WINDOW_def js_slice_neg)

lemma length_window:
  "length (window name hist) = min (length (filter (qualifying name) hist)) 10"
  by (simp add: window_drop)

lemma window_qualifying: "r \<in> set (window name hist) \<Longrightarrow> qualifying name r"
proof -
  assume "r \<in> set (window name hist)"
  then have "r \<in> set (filter (qualifying name) hist)"
    unfolding window_drop by (rule in_set_dropD)
  then show ?thesis by simp
qed

lemma window_ignores_null:
  "window name (filter (\<lambda>r. responseTimeMs r \<noteq> None) hist) = window name hist"
proof -
  have "filter (qualifying name) (filter (\<lambda>r. responseTimeMs r \<noteq> None) hist)
        = filter (qualifying name) hist"
    by (induction hist) (auto simp: qualifying_def)
  then show ?thesis by (simp add: window_def)
qed

lemma detectAnomaly_None: "detectAnomaly name None hist = not_detected"
  by (simp add: detectAnomaly_def)

lemma detectAnomaly_few:
  "length (filter (qualifying name) hist) < 5 \<Longrightarrow> detectAnomaly name cur hist = not_detected"
  by (cases cur) (simp_all add: detectAnomaly_def Let_def length_window ANOMALY_MIN_SAMPLES_def)

lemma detectAnomaly_window:
  "window name hist = window name hist' \<Longrightarrow>
   detectAnomaly name cur hist = detectAnomaly name cur hist'"
  by (cases cur) (simp_all add: detectAnomaly_def)

lemma detectAnomaly_scored:
  assumes "5 \<le> length (filter (qualifying name) hist)"
    and "rolling_average (window name hist) = Num a" and "a \<noteq> 0"
  shows "detectAnomaly name (Some cur) hist =
           (if js_ge (deviation cur (Num a)) 3
            then \<lparr>detected = True, rollingAvgMs = Some (Num a),
                  deviationFactor = Some (deviation cur (Num a)), severity = Some ''critical''\<rparr>
            else if js_ge (deviation cur (Num a)) 2
            then \<lparr>detected = True, rollingAvgMs = Some (Num a),
                  deviationFactor = Some (deviation cur (Num a)), severity = Some ''warning''\<rparr>
            else not_detected)"
  using assms
  by (simp add: detectAnomaly_def Let_def length_window ANOMALY_MIN_SAMPLES_def
      ANOMALY_CRITICAL_FACTOR_def ANOMALY_WARNING_FACTOR_def)

lemma toFixed2_nearest:
  assumes "\<bar>q\<bar> < 10 ^ 21"
  shows "\<exists>n::int. parseFloat (toFixed2 (Num q)) = Num (fl (of_int n / 100))
                 \<and> \<bar>of_int n / 100 - q\<bar> \<le> 1 / 200"
proof -
  define m where "m = \<lfloor>\<bar>q\<bar> * 100 + 1 / 2\<rfloor>"
  have lo: "of_int m \<le> \<bar>q\<bar> * 100 + 1 / 2" unfolding m_def by (rule of_int_floor_le)
  have hi: "\<bar>q\<bar> * 100 + 1 / 2 < of_int m + 1" unfolding m_def by linarith
  have near: "\<bar>rat_of_int m / 100 - \<bar>q\<bar>\<bar> \<le> 1 / 200"
    using lo hi by linarith
  have tf: "toFixed2 (Num q) = Fixed2 (q < 0) m"
    using assms unfolding m_def by simp
  show ?thesis
  proof (cases "q < 0")
    case True
    have "parseFloat (toFixed2 (Num q)) = Num (fl (of_int (- m) / 100))"
      unfolding tf using True by simp
    moreover have "rat_of_int (- m) / 100 - q = - (rat_of_int m / 100 - \<bar>q\<bar>)"
      using True by simp
    then have "\<bar>rat_of_int (- m) / 100 - q\<bar> \<le> 1 / 200"
      using near by (simp only: abs_minus_cancel)
    ultimately show ?thesis by blast
  next
    case False
    have "parseFloat (toFixed2 (Num q)) = Num (fl (of_int m / 100))"
      unfolding tf using False by simp
    moreover have "\<bar>of_int m / 100 - q\<bar> \<le> 1 / 200"
      using near False by linarith
    ultimately show ?thesis by blast
  qed
qed

lemma deviation_finite: "a \<noteq> 0 \<Longrightarrow> \<exists>d. deviation cur (Num a) = Num d"
  by (simp add: deviation_def)

lemma rolling_average_int:
  "xs \<noteq> [] \<Longrightarrow> \<exists>k::int. rolling_average xs = Num (of_int k)"
  by (simp add: rolling_average_def)

lemma window_subset:
  "r \<in> set (window name hist) \<Longrightarrow> r \<in> set hist \<and> endpoint r = name"
proof -
  assume a: "r \<in> set (window name hist)"
  then have "r \<in> set (filter (qualifying name) hist)"
    unfolding window_drop by (rule in_set_dropD)
  then show ?thesis by (simp add: qualifying_def)
qed

lemma rolling_average_nonneg:
  assumes "xs \<noteq> []"
    and "\<forall>r\<in>set xs. \<forall>t. responseTimeMs r = Some t \<longrightarrow> 0 \<le> t"
    and "rolling_average xs = Num (of_int k)"
  shows "0 \<le> k"
proof -
  have "0 \<le> sum_times xs / of_nat (length xs)"
    using sum_times_nonneg [OF assms(2)] by simp
  then have "0 \<le> fl (sum_times xs / of_nat (length xs))"
    by (rule fl_nonneg)
  then have "0 \<le> \<lfloor>fl (sum_times xs / of_nat (length xs)) + 1 / 2\<rfloor>"
    by simp
  moreover have "k = \<lfloor>fl (sum_times xs / of_nat (length xs)) + 1 / 2\<rfloor>"
    using assms(3) by (simp add: rolling_average_Num [OF assms(1)])
  ultimately show ?thesis by simp
qed

lemma detectAnomaly_cases:
  "detectAnomaly name cur hist = not_detected
   \<or> (\<exists>c k d. cur = Some c
         \<and> 5 \<le> length (filter (qualifying name) hist)
         \<and> rolling_average (window name hist) = Num (of_int k) \<and> k \<noteq> 0
         \<and> deviation c (Num (of_int k)) = Num d \<and> 2 \<le> d
         \<and> detectAnomaly name cur hist =
             \<lparr>detected = True, rollingAvgMs = Some (Num (of_int k)),
              deviationFactor = Some (Num d),
              severity = Some (if 3 \<le> d then ''critical'' else ''warning'')\<rparr>)"
proof (cases cur)
  case None
  then show ?thesis by (simp add: detectAnomaly_None)
next
  case (Some c)
  show ?thesis
  proof (cases "length (filter (qualifying name) hist) < 5")
    case True
    then show ?thesis by (simp add: detectAnomaly_few)
  next
    case False
    then have five: "5 \<le> length (filter (qualifying name) hist)" by simp
    then have "window name hist \<noteq> []"
      using length_window [of name hist] by auto
    then obtain k :: int where k: "rolling_average (window name hist) = Num (of_int k)"
      using rolling_average_int by blast
    show ?thesis
    proof (cases "k = 0")
      case True
      then have "detectAnomaly name cur hist = not_detected"
        by (simp add: Some detectAnomaly_def Let_def k)
      then show ?thesis by simp
    next
      case False
      then have nz: "rat_of_int k \<noteq> 0" by simp
      obtain d where d: "deviation c (Num (of_int k)) = Num d"
        using deviation_finite [OF nz] by blast
      note v = detectAnomaly_scored [OF five k nz, of c]
      show ?thesis
      proof (cases "2 \<le> d")
        case True
        with v d have "detectAnomaly name cur hist =
             \<lparr>detected = True, rollingAvgMs = Some (Num (of_int k)),
              deviationFactor = Some (Num d),
              severity = Some (if 3 \<le> d then ''critical'' else ''warning'')\<rparr>"
          by (simp add: Some)
        with Some five k False d True show ?thesis by blast
      next
        case False
        with v d have "detectAnomaly name cur hist = not_detected"
          by (simp add: Some)
        then show ?thesis by simp
      qed
    qed
  qed
qed

lemma past_probe_fields:
  "endpoint (past_probe t) = ''Structures''" "responseTimeMs (past_probe t) = Some t"
  by (simp_all add: past_probe_def checkEndpoint_def probe_at_def initial_result_def
      ENDPOINTS_def Let_def)

lemma checkEndpoint_time_never_null: "responseTimeMs (checkEndpoint ep env) \<noteq> None"
  by (simp add: checkEndpoint_def on_catch_def Let_def split: network_outcome.splits)

lemma checkEndpoint_not_annotated: "anomaly (checkEndpoint ep env) = not_detected"
  by (simp add: checkEndpoint_def on_catch_def initial_result_def Let_def
      split: network_outcome.splits)

lemma detectAnomaly_empty_log: "detectAnomaly name cur [] = not_detected"
  by (rule detectAnomaly_few) simp

lemma annotate_empty_log: "annotate [] (checkEndpoint ep env) = checkEndpoint ep env"
  by (simp add: annotate_def detectAnomaly_empty_log checkEndpoint_not_annotated [symmetric])

subsection \<open>The exit code\<close>

text \<open>
  C2. When \<open>main\<close> runs to its end, the exit code of the process is 1 if and only if
  every result of the run has \<open>ok = false\<close>; as soon as one result has \<open>ok = true\<close> the
  code is 0, whatever the other probes did.
\<close>

theorem exit_code_one_iff_all_failed:
  assumes "main codec net w = Inr r"
  shows "(run_exit r = 1 \<longleftrightarrow> (\<forall>res\<in>set (run_results r). \<not> ok res))
       \<and> (run_exit r = 0 \<longleftrightarrow> (\<exists>res\<in>set (run_results r). ok res))
       \<and> process_exit_code codec net w = run_exit r"
proof -
  from assms have e: "run_exit r = exit_code (run_results r)"
    by (auto simp: main_def Let_def split: sum.splits)
  have "run_exit r = 1 \<longleftrightarrow> (\<forall>res\<in>set (run_results r). \<not> ok res)"
    by (simp add: e exit_code_iff)
  moreover have "run_exit r = 0 \<longleftrightarrow> (\<exists>res\<in>set (run_results r). ok res)"
    using exit_code_cases [of "run_results r"] exit_code_iff [of "run_results r"]
    by (auto simp: e)
  moreover have "process_exit_code codec net w = run_exit r"
    using assms by (simp add: process_exit_code_def)
  ultimately show ?thesis by blast
qed

text \<open>
  Three endpoints probed on a first run, two answered and one failed: the run ends with
  exit code 0.
\<close>

theorem exit_code_one_iff_all_failed_witness:
  "main (one_text_codec []) two_of_three fresh_world
     = Inr (projr (main (one_text_codec []) two_of_three fresh_world))
   \<and> run_exit (projr (main (one_text_codec []) two_of_three fresh_world)) = 0
   \<and> process_exit_code (one_text_codec []) two_of_three fresh_world = 0"
proof -
  let ?m = "main (one_text_codec []) two_of_three fresh_world"
  have "\<not> isl ?m"
    by (simp add: main_def Let_def writeLog_def fresh_world_def split: sum.splits)
  then have h: "?m = Inr (projr ?m)" by simp
  have one: "ok (hd (run_results (projr ?m)))"
    by code_simp
  have "run_results (projr ?m) \<noteq> []"
    by code_simp
  with one have "\<exists>res\<in>set (run_results (projr ?m)). ok res"
    using hd_in_set by blast
  with exit_code_one_iff_all_failed [OF h] h show ?thesis by simp
qed

subsection \<open>The log\<close>

text \<open>
  C3. Whatever list of entries \<open>writeLog\<close> is given, the log it persists holds at most
  200 entries, and they are the last 200 entries of the input in the input's order: what
  is evicted is a prefix of the input, and no kept entry is changed or moved.
\<close>

theorem writeLog_keeps_last_entries:
  assumes "writeLog codec entries w = Inr w'"
  shows "\<exists>kept evicted.
           log_file w' = Inr (JSON_stringify codec (JArray kept))
         \<and> entries = evicted @ kept
         \<and> length kept = min (length entries) 200
         \<and> kept = drop (length entries - 200) entries"
proof -
  have k: "js_slice (- MAX_LOG_ENTRIES) entries = drop (length entries - 200) entries"
    by (simp add: js_slice_neg MAX_LOG_ENTRIES_def)
  from assms have "log_file w' = Inr (JSON_stringify codec (JArray (drop (length entries - 200) entries)))"
    by (auto simp: writeLog_def Let_def k split: option.splits)
  moreover have "entries = take (length entries - 200) entries @ drop (length entries - 200) entries"
    by simp
  moreover have "length (drop (length entries - 200) entries) = min (length entries) 200"
    by auto
  ultimately show ?thesis by blast
qed

text \<open>
  A log of 201 entries: the oldest one is evicted and the 200 that follow it are kept.
\<close>

theorem writeLog_keeps_last_entries_witness:
  "writeLog (one_text_codec []) (past_probe 1 # replicate 200 (past_probe 100)) fresh_world
     = Inr (fresh_world\<lparr>log_file := Inr ''[...]''\<rparr>)
   \<and> (\<exists>kept evicted.
        log_file (fresh_world\<lparr>log_file := Inr ''[...]''\<rparr>)
          = Inr (JSON_stringify (one_text_codec []) (JArray kept))
      \<and> past_probe 1 # replicate 200 (past_probe 100) = evicted @ kept
      \<and> length kept = min (length (past_probe 1 # replicate 200 (past_probe 100))) 200
      \<and> kept = drop (length (past_probe 1 # replicate 200 (past_probe 100)) - 200)
                 (past_probe 1 # replicate 200 (past_probe 100)))"
proof -
  have h: "writeLog (one_text_codec []) (past_probe 1 # replicate 200 (past_probe 100)) fresh_world
           = Inr (fresh_world\<lparr>log_file := Inr ''[...]''\<rparr>)"
    by (simp add: writeLog_def Let_def fresh_world_def one_text_codec_def)
  from h writeLog_keeps_last_entries [OF h] show ?thesis by blast
qed

text \<open>
  C8. Writing a list of \<open>N\<close> results with \<open>writeLog\<close> and reading the file with
  \<open>readLog\<close> gives the same \<open>N\<close> results when \<open>N \<le> 200\<close> and exactly the last 200 of
  them when \<open>N > 200\<close>, provided the write succeeds and the platform's \<^verbatim>\<open>JSON.parse\<close>
  reads the text of \<^verbatim>\<open>JSON.stringify\<close> back as the array that was written.
\<close>

theorem write_then_read:
  assumes "write_error w = None"
    and "JSON_parse codec (JSON_stringify codec (JArray (js_slice (- MAX_LOG_ENTRIES) entries)))
         = Inr (JArray (js_slice (- MAX_LOG_ENTRIES) entries))"
  shows "\<exists>w'. writeLog codec entries w = Inr w'
          \<and> readLog codec w' = (if length entries \<le> 200 then entries
                                 else drop (length entries - 200) entries)"
proof -
  have k: "js_slice (- MAX_LOG_ENTRIES) entries = drop (length entries - 200) entries"
    by (simp add: js_slice_neg MAX_LOG_ENTRIES_def)
  let ?w = "w\<lparr>log_file := Inr (JSON_stringify codec (JArray (js_slice (- MAX_LOG_ENTRIES) entries)))\<rparr>"
  have "writeLog codec entries w = Inr ?w"
    using assms(1) by (simp add: writeLog_def Let_def)
  moreover have "readLog codec ?w = js_slice (- MAX_LOG_ENTRIES) entries"
    using assms(2) by (simp add: readLog_def)
  ultimately show ?thesis
    by (auto simp: k)
qed

text \<open>
  Two results written on a first run are read back as they were written.
\<close>

theorem write_then_read_witness:
  "write_error fresh_world = None
   \<and> JSON_parse (one_text_codec [past_probe 120, past_probe 130])
       (JSON_stringify (one_text_codec [past_probe 120, past_probe 130])
          (JArray (js_slice (- MAX_LOG_ENTRIES) [past_probe 120, past_probe 130])))
     = Inr (JArray (js_slice (- MAX_LOG_ENTRIES) [past_probe 120, past_probe 130]))
   \<and> (\<exists>w'. writeLog (one_text_codec [past_probe 120, past_probe 130])
               [past_probe 120, past_probe 130] fresh_world = Inr w'
          \<and> readLog (one_text_codec [past_probe 120, past_probe 130]) w'
            = [past_probe 120, past_probe 130])"
proof -
  have h1: "write_error fresh_world = None"
    by (simp add: fresh_world_def)
  have h2: "JSON_parse (one_text_codec [past_probe 120, past_probe 130])
       (JSON_stringify (one_text_codec [past_probe 120, past_probe 130])
          (JArray (js_slice (- MAX_LOG_ENTRIES) [past_probe 120, past_probe 130])))
     = Inr (JArray (js_slice (- MAX_LOG_ENTRIES) [past_probe 120, past_probe 130]))"
    by (simp add: one_text_codec_def js_slice_def MAX_LOG_ENTRIES_def)
  from h1 h2 write_then_read [OF h1 h2] show ?thesis by simp
qed

text \<open>
  C7. \<open>readLog\<close> returns the empty list when the file cannot be read (it is absent, or
  \<^verbatim>\<open>readFileSync\<close> fails otherwise), when its text is not JSON, and when the text is
  JSON for something other than an array; it raises in none of these cases. The run then
  goes on: if the file can be written, \<open>main\<close> ends normally and the new log is
  exactly the results of this run.
\<close>

theorem unreadable_log_is_empty:
  assumes "(\<exists>err. log_file w = Inl err)
         \<or> (\<exists>raw. log_file w = Inr raw
               \<and> ((\<exists>err. JSON_parse codec raw = Inl err)
                  \<or> JSON_parse codec raw = Inr JNotArray))"
  shows "readLog codec w = []
       \<and> (write_error w = None \<longrightarrow>
            (\<exists>r. main codec net w = Inr r
               \<and> run_results r =
                   map (\<lambda>(i, ep). checkEndpoint ep (net i)) (enumerate 0 ENDPOINTS)
               \<and> log_file (run_world r)
                   = Inr (JSON_stringify codec (JArray (run_results r)))))"
proof -
  from assms have empty: "readLog codec w = []"
    by (auto simp: readLog_def)
  let ?results = "map (\<lambda>(i, ep). checkEndpoint ep (net i)) (enumerate 0 ENDPOINTS)"
  have same: "map (annotate []) ?results = ?results"
    by (simp add: annotate_empty_log split_def)
  have "length ?results = 3"
    by (simp add: ENDPOINTS_def)
  then have all: "js_slice (- MAX_LOG_ENTRIES) ?results = ?results"
    by (simp add: js_slice_neg MAX_LOG_ENTRIES_def)
  have "main codec net w =
          Inr \<lparr>run_results = ?results,
               run_world = w\<lparr>log_file := Inr (JSON_stringify codec (JArray ?results))\<rparr>,
               run_exit = exit_code ?results\<rparr>"
    if "write_error w = None"
    unfolding main_def Let_def empty append_Nil same writeLog_def all
    using that by simp
  then have "write_error w = None \<longrightarrow>
            (\<exists>r. main codec net w = Inr r \<and> run_results r = ?results
               \<and> log_file (run_world r) = Inr (JSON_stringify codec (JArray (run_results r))))"
    by simp
  with empty show ?thesis by blast
qed

text \<open>
  A log file that holds \<^verbatim>\<open>{not json\<close> reads as the empty log, and the run that finds it
  ends normally.
\<close>

theorem unreadable_log_is_empty_witness:
  "log_file corrupt_world = Inr ''{not json''
   \<and> JSON_parse (one_text_codec []) ''{not json'' = Inl syntax_error
   \<and> readLog (one_text_codec []) corrupt_world = []
   \<and> \<not> isl (main (one_text_codec []) two_of_three corrupt_world)"
proof -
  have f: "log_file corrupt_world = Inr ''{not json''"
    by (simp add: corrupt_world_def)
  have p: "JSON_parse (one_text_codec []) ''{not json'' = Inl syntax_error"
    by (simp add: one_text_codec_def)
  have wr: "write_error corrupt_world = None"
    by (simp add: corrupt_world_def)
  from f p have h: "(\<exists>err. log_file corrupt_world = Inl err)
         \<or> (\<exists>raw. log_file corrupt_world = Inr raw
               \<and> ((\<exists>err. JSON_parse (one_text_codec []) raw = Inl err)
                  \<or> JSON_parse (one_text_codec []) raw = Inr JNotArray))"
    by blast
  from unreadable_log_is_empty [OF h, of two_of_three] wr
  have "readLog (one_text_codec []) corrupt_world = []"
    and "\<exists>r. main (one_text_codec []) two_of_three corrupt_world = Inr r"
    by blast+
  with f p show ?thesis by auto
qed

subsection \<open>The anomaly detector\<close>

text \<open>
  C4. With a qualifying baseline (a current response time, at least 5 qualifying samples
  and a rolling average that is not 0), the factor of \<open>detectAnomaly\<close> is the quotient
  of the current time by the rolling average taken through \<^verbatim>\<open>toFixed(2)\<close> and
  \<^verbatim>\<open>parseFloat\<close>, which below \<open>10 ^ 21\<close> is the number read from a decimal with two
  places that lies within half a hundredth of the quotient. The verdict follows the
  factor: below 2 nothing is detected, from 2 up to 3 the severity is \<open>warning\<close>, from 3
  on it is \<open>critical\<close>.
\<close>

theorem deviation_factor_thresholds:
  assumes "5 \<le> length (filter (qualifying name) hist)"
    and "rolling_average (window name hist) = Num a"
    and "a \<noteq> 0"
  shows "\<exists>x. deviation cur (Num a) = Num x
          \<and> Num x = parseFloat (toFixed2 (Num (fl (of_int cur / a))))
          \<and> (\<bar>fl (of_int cur / a)\<bar> < 10 ^ 21 \<longrightarrow>
               (\<exists>n::int. x = fl (of_int n / 100)
                         \<and> \<bar>of_int n / 100 - fl (of_int cur / a)\<bar> \<le> 1 / 200))
          \<and> (x < 2 \<longrightarrow> detectAnomaly name (Some cur) hist = not_detected)
          \<and> (2 \<le> x \<and> x < 3 \<longrightarrow>
               detectAnomaly name (Some cur) hist =
                 \<lparr>detected = True, rollingAvgMs = Some (Num a),
                  deviationFactor = Some (Num x), severity = Some ''warning''\<rparr>)
          \<and> (3 \<le> x \<longrightarrow>
               detectAnomaly name (Some cur) hist =
                 \<lparr>detected = True, rollingAvgMs = Some (Num a),
                  deviationFactor = Some (Num x), severity = Some ''critical''\<rparr>)"
proof -
  obtain x where x: "deviation cur (Num a) = Num x"
    using deviation_finite [OF assms(3)] by blast
  have d: "Num x = parseFloat (toFixed2 (Num (fl (of_int cur / a))))"
    using assms(3) x by (simp add: deviation_def)
  have r: "\<exists>n::int. x = fl (of_int n / 100)
                    \<and> \<bar>of_int n / 100 - fl (of_int cur / a)\<bar> \<le> 1 / 200"
    if "\<bar>fl (of_int cur / a)\<bar> < 10 ^ 21"
    using toFixed2_nearest [OF that] d by auto
  have v: "detectAnomaly name (Some cur) hist =
           (if 3 \<le> x
            then \<lparr>detected = True, rollingAvgMs = Some (Num a),
                  deviationFactor = Some (Num x), severity = Some ''critical''\<rparr>
            else if 2 \<le> x
            then \<lparr>detected = True, rollingAvgMs = Some (Num a),
                  deviationFactor = Some (Num x), severity = Some ''warning''\<rparr>
            else not_detected)"
    using detectAnomaly_scored [OF assms, of cur] by (simp add: x)
  have "x < 2 \<longrightarrow> detectAnomaly name (Some cur) hist = not_detected"
    by (simp add: v)
  moreover have "2 \<le> x \<and> x < 3 \<longrightarrow>
               detectAnomaly name (Some cur) hist =
                 \<lparr>detected = True, rollingAvgMs = Some (Num a),
                  deviationFactor = Some (Num x), severity = Some ''warning''\<rparr>"
    by (simp add: v)
  moreover have "3 \<le> x \<longrightarrow>
               detectAnomaly name (Some cur) hist =
                 \<lparr>detected = True, rollingAvgMs = Some (Num a),
                  deviationFactor = Some (Num x), severity = Some ''critical''\<rparr>"
    by (simp add: v)
  ultimately show ?thesis using x d r by blast
qed

text \<open>
  Nine earlier samples of 100 ms and a current time of 350 ms: the factor is 3.5 and the
  severity is \<open>critical\<close>.
\<close>

theorem deviation_factor_thresholds_witness:
  "5 \<le> length (filter (qualifying ''Structures'') (replicate 9 (past_probe 100)))
   \<and> rolling_average (window ''Structures'' (replicate 9 (past_probe 100))) = Num 100
   \<and> (100::rat) \<noteq> 0
   \<and> detectAnomaly ''Structures'' (Some 350) (replicate 9 (past_probe 100)) =
       \<lparr>detected = True, rollingAvgMs = Some (Num 100),
        deviationFactor = Some (Num (7 / 2)), severity = Some ''critical''\<rparr>"
proof -
  have h1: "5 \<le> length (filter (qualifying ''Structures'') (replicate 9 (past_probe 100)))"
    by code_simp
  have h2: "rolling_average (window ''Structures'' (replicate 9 (past_probe 100))) = Num 100"
    by code_simp
  have h3: "(100::rat) \<noteq> 0"
    by simp
  have f: "deviation 350 (Num 100) = Num (7 / 2)"
    by code_simp
  from deviation_factor_thresholds [OF h1 h2 h3, of 350]
  obtain x where "deviation 350 (Num 100) = Num x"
    and "3 \<le> x \<longrightarrow>
         detectAnomaly ''Structures'' (Some 350) (replicate 9 (past_probe 100)) =
           \<lparr>detected = True, rollingAvgMs = Some (Num 100),
            deviationFactor = Some (Num x), severity = Some ''critical''\<rparr>"
    by blast
  with f h1 h2 show ?thesis by simp
qed

text \<open>
  C5. \<open>detectAnomaly\<close> detects nothing when the current response time is null or when
  the history holds fewer than 5 entries of the endpoint with a response time that is not
  null. The baseline window is the last 10 qualifying entries; an entry whose response
  time is null is never in it, and removing such entries from the history changes no
  verdict.
\<close>

theorem no_anomaly_without_baseline:
  "(cur = None \<or> length (filter (qualifying name) hist) < 5 \<longrightarrow>
      detectAnomaly name cur hist = not_detected)
   \<and> window name hist =
       drop (length (filter (qualifying name) hist) - 10) (filter (qualifying name) hist)
   \<and> length (window name hist) \<le> 10
   \<and> (\<forall>r\<in>set (window name hist). endpoint r = name \<and> responseTimeMs r \<noteq> None)
   \<and> detectAnomaly name cur hist =
       detectAnomaly name cur (filter (\<lambda>r. responseTimeMs r \<noteq> None) hist)"
proof -
  have "cur = None \<or> length (filter (qualifying name) hist) < 5 \<longrightarrow>
        detectAnomaly name cur hist = not_detected"
    using detectAnomaly_None detectAnomaly_few by blast
  moreover have "length (window name hist) \<le> 10"
    by (simp add: length_window)
  moreover have "\<forall>r\<in>set (window name hist). endpoint r = name \<and> responseTimeMs r \<noteq> None"
    using window_qualifying by (auto simp: qualifying_def)
  moreover have "detectAnomaly name cur hist =
       detectAnomaly name cur (filter (\<lambda>r. responseTimeMs r \<noteq> None) hist)"
    by (rule detectAnomaly_window) (rule window_ignores_null [symmetric])
  ultimately show ?thesis
    using window_drop by blast
qed

text \<open>
  Four earlier samples are not a baseline: a probe ten times slower than they were is
  not flagged.
\<close>

theorem no_anomaly_without_baseline_witness:
  "length (filter (qualifying ''Structures'') (replicate 4 (past_probe 100))) < 5
   \<and> detectAnomaly ''Structures'' (Some 1000) (replicate 4 (past_probe 100)) = not_detected
   \<and> window ''Structures'' (replicate 4 (past_probe 100)) \<noteq> []
   \<and> endpoint (hd (window ''Structures'' (replicate 4 (past_probe 100)))) = ''Structures''
   \<and> responseTimeMs (hd (window ''Structures'' (replicate 4 (past_probe 100)))) \<noteq> None"
proof -
  have h: "length (filter (qualifying ''Structures'') (replicate 4 (past_probe 100))) < 5"
    by code_simp
  have n: "window ''Structures'' (replicate 4 (past_probe 100)) \<noteq> []"
    by code_simp
  then have "hd (window ''Structures'' (replicate 4 (past_probe 100)))
             \<in> set (window ''Structures'' (replicate 4 (past_probe 100)))"
    by (rule hd_in_set)
  with h n no_anomaly_without_baseline
    [of "Some 1000" "''Structures''" "replicate 4 (past_probe 100)"]
  show ?thesis by blast
qed

text \<open>
  C9. With at least 5 qualifying samples the rolling average is a whole number. When it
  is 0, \<open>detectAnomaly\<close> detects nothing; when it is not, the quotient of the current time
  by it is an ordinary finite quotient. So \<^verbatim>\<open>currentMs / rollingAvgMs\<close> is never
  computed with a zero divisor.
\<close>

theorem zero_average_not_detected:
  assumes "5 \<le> length (filter (qualifying name) hist)"
  shows "\<exists>k::int. rolling_average (window name hist) = Num (of_int k)
          \<and> (k = 0 \<longrightarrow> detectAnomaly name cur hist = not_detected)
          \<and> (k \<noteq> 0 \<longrightarrow>
               (\<forall>c. js_div (Num (of_int c)) (rolling_average (window name hist))
                     = Num (fl (of_int c / of_int k))))"
proof -
  from assms have "window name hist \<noteq> []"
    using length_window [of name hist] by auto
  then obtain k :: int where k: "rolling_average (window name hist) = Num (of_int k)"
    using rolling_average_int by blast
  have "k = 0 \<longrightarrow> detectAnomaly name cur hist = not_detected"
    by (cases cur) (simp_all add: detectAnomaly_def Let_def k)
  moreover have "k \<noteq> 0 \<longrightarrow>
               (\<forall>c. js_div (Num (of_int c)) (rolling_average (window name hist))
                     = Num (fl (of_int c / of_int k)))"
    by (simp add: k)
  ultimately show ?thesis using k by blast
qed

text \<open>
  Five earlier samples of 0 ms: a probe that takes 500 ms is not flagged.
\<close>

theorem zero_average_not_detected_witness:
  "5 \<le> length (filter (qualifying ''Structures'') (replicate 5 (past_probe 0)))
   \<and> rolling_average (window ''Structures'' (replicate 5 (past_probe 0))) = Num 0
   \<and> detectAnomaly ''Structures'' (Some 500) (replicate 5 (past_probe 0)) = not_detected"
proof -
  have h: "5 \<le> length (filter (qualifying ''Structures'') (replicate 5 (past_probe 0)))"
    by code_simp
  have z: "rolling_average (window ''Structures'' (replicate 5 (past_probe 0))) = Num 0"
    by code_simp
  from zero_average_not_detected [OF h, of "Some 500"]
  obtain k :: int where
    "rolling_average (window ''Structures'' (replicate 5 (past_probe 0))) = Num (of_int k)"
    and "k = 0 \<longrightarrow>
         detectAnomaly ''Structures'' (Some 500) (replicate 5 (past_probe 0)) = not_detected"
    by blast
  with z h show ?thesis by simp
qed

text \<open>
  C10 (as amended). A verdict of \<open>detectAnomaly\<close> with \<open>detected = true\<close> carries a
  \<open>rollingAvgMs\<close> that is a whole number other than 0, and at least 1 when no response
  time of the endpoint in the history is negative; its \<open>deviationFactor\<close> is a finite
  number that is at least 2, and its severity is \<open>critical\<close> exactly when the factor is
  at least 3 and \<open>warning\<close> otherwise. A verdict with \<open>detected = false\<close> carries none of
  the three fields.
\<close>

theorem verdict_fields:
  "(detected (detectAnomaly name cur hist) \<longrightarrow>
      (\<exists>k::int. rollingAvgMs (detectAnomaly name cur hist) = Some (Num (of_int k))
         \<and> k \<noteq> 0
         \<and> ((\<forall>r\<in>set hist. endpoint r = name \<longrightarrow>
                 (\<forall>t. responseTimeMs r = Some t \<longrightarrow> 0 \<le> t)) \<longrightarrow> 1 \<le> k))
    \<and> (\<exists>d. deviationFactor (detectAnomaly name cur hist) = Some (Num d)
         \<and> 2 \<le> d
         \<and> (severity (detectAnomaly name cur hist) = Some ''critical'' \<longleftrightarrow> 3 \<le> d)
         \<and> (severity (detectAnomaly name cur hist) = Some ''warning'' \<longleftrightarrow> d < 3)))
   \<and> (\<not> detected (detectAnomaly name cur hist) \<longrightarrow>
        rollingAvgMs (detectAnomaly name cur hist) = None
      \<and> deviationFactor (detectAnomaly name cur hist) = None
      \<and> severity (detectAnomaly name cur hist) = None)"
proof -
  consider (none) "detectAnomaly name cur hist = not_detected"
    | (some) c k d where "cur = Some c"
        "5 \<le> length (filter (qualifying name) hist)"
        "rolling_average (window name hist) = Num (of_int k)" "k \<noteq> 0"
        "deviation c (Num (of_int k)) = Num d" "2 \<le> d"
        "detectAnomaly name cur hist =
             \<lparr>detected = True, rollingAvgMs = Some (Num (of_int k)),
              deviationFactor = Some (Num d),
              severity = Some (if 3 \<le> d then ''critical'' else ''warning'')\<rparr>"
    using detectAnomaly_cases [of name cur hist] by blast
  then show ?thesis
  proof cases
    case none
    then show ?thesis by (simp add: not_detected_def)
  next
    case some
    have ne: "window name hist \<noteq> []"
      using some(2) length_window [of name hist] by auto
    have pos: "1 \<le> k"
      if nonneg: "\<forall>r\<in>set hist. endpoint r = name \<longrightarrow> (\<forall>t. responseTimeMs r = Some t \<longrightarrow> 0 \<le> t)"
    proof -
      have "\<forall>r\<in>set (window name hist). \<forall>t. responseTimeMs r = Some t \<longrightarrow> 0 \<le> t"
        using nonneg window_subset by blast
      then have "0 \<le> k"
        using rolling_average_nonneg [OF ne _ some(3)] by blast
      with some(4) show ?thesis by simp
    qed
    have "\<exists>k'::int. Some (Num (rat_of_int k)) = Some (Num (of_int k')) \<and> k' \<noteq> 0
         \<and> ((\<forall>r\<in>set hist. endpoint r = name \<longrightarrow>
                 (\<forall>t. responseTimeMs r = Some t \<longrightarrow> 0 \<le> t)) \<longrightarrow> 1 \<le> k')"
      using some(4) pos by blast
    moreover have "\<exists>d'. Some (Num d) = Some (Num d') \<and> 2 \<le> d'
         \<and> (Some (if 3 \<le> d then ''critical'' else ''warning'') = Some ''critical'' \<longleftrightarrow> 3 \<le> d')
         \<and> (Some (if 3 \<le> d then ''critical'' else ''warning'') = Some ''warning'' \<longleftrightarrow> d' < 3)"
      using some(6) by auto
    ultimately show ?thesis
      by (simp only: some(7) anomaly_verdict.simps simp_thms)
  qed
qed

text \<open>
  Nine earlier samples of 100 ms and a current time of 350 ms: the verdict is
  \<open>detected\<close> and its rolling average is at least 1.
\<close>

theorem verdict_fields_witness:
  "detected (detectAnomaly ''Structures'' (Some 350) (replicate 9 (past_probe 100)))
   \<and> (\<exists>k::int. rollingAvgMs (detectAnomaly ''Structures'' (Some 350)
                    (replicate 9 (past_probe 100))) = Some (Num (of_int k))
         \<and> 1 \<le> k)"
proof -
  have h: "detected (detectAnomaly ''Structures'' (Some 350) (replicate 9 (past_probe 100)))"
    by code_simp
  have nonneg: "\<forall>r\<in>set (replicate 9 (past_probe 100)). endpoint r = ''Structures'' \<longrightarrow>
                 (\<forall>t. responseTimeMs r = Some t \<longrightarrow> 0 \<le> t)"
    by (simp add: past_probe_fields)
  from h nonneg
    verdict_fields [of "''Structures''" "Some 350" "replicate 9 (past_probe 100)"]
  show ?thesis by blast
qed

text \<open>
  The claim as it was stated fails on a history of negative response times (the clock
  was set back while those probes ran): the verdict is \<open>detected\<close> with a rolling average
  of -100.
\<close>

theorem verdict_fields_counterexample:
  "detectAnomaly ''Structures'' (Some (- 300)) (replicate 5 (past_probe (- 100))) =
     \<lparr>detected = True, rollingAvgMs = Some (Num (- 100)),
      deviationFactor = Some (Num 3), severity = Some ''critical''\<rparr>
   \<and> (- 100 :: rat) < 1"
  by code_simp

subsection \<open>Failed probes\<close>


text \<open>
  C6. A probe of the first endpoint that the timer aborts at 15000 ms, in a run that
  finds five earlier samples of 100 ms in the log. The result names the timeout in its
  error, has \<open>ok = false\<close>, no status, no metric value and the elapsed time as
  \<open>responseTimeMs\<close>; but since that time is not null, the annotation of \<open>main\<close> scores it
  against the baseline, and the verdict is \<open>detected\<close> with severity \<open>critical\<close>.
\<close>

theorem timed_out_probe_is_scored:
  "hd (run_results (projr
         (main (one_text_codec (replicate 5 (past_probe 100)))
            (\<lambda>i. probe_at (Rejected abort_error 15000))
            \<lparr>log_file = Inr ''[...]'', write_error = None\<rparr>)))
   = \<lparr>endpoint = ''Structures'',
      url = ''https://nsi-demo-stable.siscc.org/rest/datastructure/all/all/all?detail=allstubs'',
      timestamp = ''2025-03-01T06:00:00.000Z'',
      status = None, ok = False, responseTimeMs = Some 15000,
      contentTypeValid = False, responseSizeKB = None,
      extraMetric = \<lparr>metric_label = ''DataStructure count'', metric_value = None\<rparr>,
      anomaly = \<lparr>detected = True, rollingAvgMs = Some (Num 100),
                 deviationFactor = Some (Num 150), severity = Some ''critical''\<rparr>,
      error = Some ''Request timed out after 15000ms''\<rparr>"
  by code_simp

end
